theory Spec2Isabelle
  imports Main "HOL-Library.Word" "HOL-Library.Sublist"
begin

section \<open>Strings\<close>

text \<open>
  A TypeScript string is a sequence of UTF-16 code units. String concatenation \<open>+\<close> is
  list append, the empty string \<open>''\<close> is the empty list, and a string is falsy exactly
  when it is empty. String literals of the source are written with \<open>js\<close>.
\<close>

type_synonym jsstring = "16 word list"

definition js :: "string \<Rightarrow> jsstring" where
  "js s = map (\<lambda>c. word_of_nat (of_char c)) s"

text \<open>
  \<open>String.prototype.trim\<close> strips white space and line terminators from both ends.
  ECMAScript's set is TAB, LF, VT, FF, CR, SP, NBSP, the other space separators
  (U+1680, U+2000 to U+200A, U+202F, U+205F, U+3000), LS, PS and the byte order mark.
\<close>

definition isWhiteSpace :: "16 word \<Rightarrow> bool" where
  "isWhiteSpace c \<longleftrightarrow>
     c \<in> {0x0009, 0x000A, 0x000B, 0x000C, 0x000D, 0x0020, 0x00A0, 0x1680,
          0x2028, 0x2029, 0x202F, 0x205F, 0x3000, 0xFEFF}
     \<or> (0x2000 \<le> c \<and> c \<le> 0x200A)"

definition trim :: "jsstring \<Rightarrow> jsstring" where
  "trim s = rev (dropWhile isWhiteSpace (rev (dropWhile isWhiteSpace s)))"

text \<open>\<open>s.includes(t)\<close>: \<open>t\<close> occurs in \<open>s\<close> as a contiguous run of code units.\<close>

definition includes_str :: "jsstring \<Rightarrow> jsstring \<Rightarrow> bool" where
  "includes_str s t = sublist t s"

section \<open>Data model\<close>

text \<open>
  \<open>ProjectFile\<close> is imported from the generation service; its two fields are the ones
  the file reader and the paste handler of \<open>EditorView\<close> fill in.
\<close>

record ProjectFile =
  name :: jsstring
  code :: jsstring

record ProcessedFile =
  name :: jsstring
  path :: jsstring
  sourceFiles :: "ProjectFile list"
  generatedHtml :: jsstring

text \<open>
  The registry is declared \<open>Record<string, ProcessedFile>\<close> and starts as the object
  literal \<open>{}\<close>, whose prototype is \<open>Object.prototype\<close>. Reading \<open>prev[key]\<close> gives the
  object's own property when it has one; otherwise the member of \<open>Object.prototype\<close> of
  that name, when there is one (a function, or for \<open>__proto__\<close> the prototype object);
  otherwise \<open>undefined\<close>. An inherited member is truthy, has no enumerable own property
  for a spread to copy, and reads \<open>undefined\<close> at \<open>sourceFiles\<close> and \<open>generatedHtml\<close>.

  So the objects the handlers store are of two shapes: a full \<open>ProcessedFile\<close>, and an
  object with the one property \<open>generatedHtml\<close>, which is what spreading an inherited
  member and adding \<open>generatedHtml\<close> builds.
\<close>

datatype entry = Entry ProcessedFile | OutputOnly jsstring

datatype read = Own entry | Inherited | Undefined

definition objectPrototypeNames :: "jsstring list" where
  "objectPrototypeNames =
     map js [''constructor'', ''hasOwnProperty'', ''isPrototypeOf'', ''propertyIsEnumerable'',
             ''toLocaleString'', ''toString'', ''valueOf'', ''__proto__'',
             ''__defineGetter__'', ''__defineSetter__'', ''__lookupGetter__'',
             ''__lookupSetter__'']"

definition readKey :: "(jsstring \<rightharpoonup> entry) \<Rightarrow> jsstring \<Rightarrow> read" where
  "readKey obj key =
     (case obj key of
        Some e \<Rightarrow> Own e
      | None \<Rightarrow> if key \<in> set objectPrototypeNames then Inherited else Undefined)"

text \<open>What a handler throws when it calls a method of \<open>undefined\<close>.\<close>

datatype jserror = TypeError

text \<open>
  The state of the \<open>App\<close> component: the own properties of the registry object, and
  \<open>string | null\<close> as an option.
\<close>

record App =
  processedFiles :: "jsstring \<rightharpoonup> entry"
  activeFile :: "jsstring option"

definition App_init :: App where
  "App_init = \<lparr>processedFiles = Map.empty, activeFile = None\<rparr>"

section \<open>The handlers of App\<close>

text \<open>
  Each handler queues state updaters; React applies them in order to the previous state,
  so a handler is a function from the state before to the state after. An updater that
  throws takes the component tree down, so its result is the error. The argument object
  \<open>fileData\<close> of \<open>handleGenerationStart\<close> is passed as its three fields; a computed key
  in an object literal always defines an own property.
\<close>

definition handleGenerationStart ::
    "jsstring \<Rightarrow> jsstring \<Rightarrow> ProjectFile list \<Rightarrow> App \<Rightarrow> App" where
  "handleGenerationStart fname fpath files s =
     (let newFile = \<lparr>name = fname, path = fpath, sourceFiles = files, generatedHtml = []\<rparr>
      in s\<lparr>processedFiles := (processedFiles s)(path newFile \<mapsto> Entry newFile),
            activeFile := Some (path newFile)\<rparr>)"

text \<open>
  \<open>project.sourceFiles.map\<close> is evaluated before anything else is looked at, and throws
  when \<open>project\<close> has no \<open>sourceFiles\<close>.
\<close>

definition handleAddFilesToProject ::
    "jsstring \<Rightarrow> ProjectFile list \<Rightarrow> App \<Rightarrow> jserror + App" where
  "handleAddFilesToProject projectPath newFiles s =
     (case readKey (processedFiles s) projectPath of
        Undefined \<Rightarrow> Inr s
      | Inherited \<Rightarrow> Inl TypeError
      | Own (OutputOnly html) \<Rightarrow> Inl TypeError
      | Own (Entry project) \<Rightarrow>
          let existingFileNames = set (map ProjectFile.name (sourceFiles project));
              uniqueNewFiles = filter (\<lambda>f. ProjectFile.name f \<notin> existingFileNames) newFiles
          in if length uniqueNewFiles = 0 then Inr s
             else Inr (s\<lparr>processedFiles := (processedFiles s)(projectPath \<mapsto>
                      Entry (project\<lparr>sourceFiles := sourceFiles project @ uniqueNewFiles,
                                     generatedHtml := []\<rparr>))\<rparr>))"

text \<open>
  \<open>existingFile.generatedHtml + htmlChunk\<close> with \<open>undefined\<close> on the left is the text
  \<open>undefined\<close> followed by the chunk.
\<close>

definition handleStreamUpdate :: "jsstring \<Rightarrow> jsstring \<Rightarrow> App \<Rightarrow> App" where
  "handleStreamUpdate p htmlChunk s =
     (case readKey (processedFiles s) p of
        Own (Entry existingFile) \<Rightarrow>
          s\<lparr>processedFiles := (processedFiles s)(p \<mapsto>
               Entry (existingFile\<lparr>generatedHtml := generatedHtml existingFile @ htmlChunk\<rparr>))\<rparr>
      | Own (OutputOnly html) \<Rightarrow>
          s\<lparr>processedFiles := (processedFiles s)(p \<mapsto> OutputOnly (html @ htmlChunk))\<rparr>
      | Inherited \<Rightarrow>
          s\<lparr>processedFiles := (processedFiles s)(p \<mapsto>
               OutputOnly (js ''undefined'' @ htmlChunk))\<rparr>
      | Undefined \<Rightarrow> s)"

definition handleReset :: "App \<Rightarrow> App" where
  "handleReset s = s\<lparr>processedFiles := Map.empty, activeFile := None\<rparr>"

text \<open>
  \<open>activeFile ? processedFiles[activeFile] : null\<close>: the value handed to \<open>EditorView\<close>.
  The empty string is falsy; \<open>null\<close> and \<open>undefined\<close> are both falsy and the view
  treats them alike.
\<close>

definition activeFileData :: "App \<Rightarrow> read" where
  "activeFileData s =
     (case activeFile s of
        None \<Rightarrow> Undefined
      | Some p \<Rightarrow> if p = [] then Undefined else readKey (processedFiles s) p)"

subsection \<open>Sequences of registry operations\<close>

datatype event =
    GenerationStart jsstring jsstring "ProjectFile list"
  | AddFilesToProject jsstring "ProjectFile list"
  | StreamUpdate jsstring jsstring
  | Reset

fun dispatch :: "App \<Rightarrow> event \<Rightarrow> jserror + App" where
  "dispatch s (GenerationStart fname fpath files) =
     Inr (handleGenerationStart fname fpath files s)"
| "dispatch s (AddFilesToProject p newFiles) = handleAddFilesToProject p newFiles s"
| "dispatch s (StreamUpdate p htmlChunk) = Inr (handleStreamUpdate p htmlChunk s)"
| "dispatch s Reset = Inr (handleReset s)"

text \<open>A sequence of operations from the empty registry; it ends at the first throw.\<close>

fun runFrom :: "App \<Rightarrow> event list \<Rightarrow> jserror + App" where
  "runFrom s [] = Inr s"
| "runFrom s (ev # evs) =
     (case dispatch s ev of
        Inl err \<Rightarrow> Inl err
      | Inr s' \<Rightarrow> runFrom s' evs)"

definition run :: "event list \<Rightarrow> jserror + App" where
  "run evs = runFrom App_init evs"

text \<open>The names of an entry's source files are pairwise distinct.\<close>

definition uniqueNames :: "ProcessedFile \<Rightarrow> bool" where
  "uniqueNames e = distinct (map ProjectFile.name (sourceFiles e))"

definition registryUnique :: "App \<Rightarrow> bool" where
  "registryUnique s \<longleftrightarrow> (\<forall>p e. processedFiles s p = Some (Entry e) \<longrightarrow> uniqueNames e)"

text \<open>The files an operation brings in have pairwise distinct names.\<close>

fun distinctInput :: "event \<Rightarrow> bool" where
  "distinctInput (GenerationStart fname fpath files) = distinct (map ProjectFile.name files)"
| "distinctInput (AddFilesToProject p newFiles) = distinct (map ProjectFile.name newFiles)"
| "distinctInput (StreamUpdate p htmlChunk) = True"
| "distinctInput Reset = True"

section \<open>EditorView\<close>

datatype tab = PreviewTab | CodeTab

record EditorView =
  isLoading :: bool
  error :: "jsstring option"
  isCopied :: bool
  activeTab :: tab
  pastedCode :: jsstring
  inputFileName :: jsstring
  validationError :: "jsstring option"
  imagePreview :: "jsstring option"
  imageBase64 :: "jsstring option"
  imageMimeType :: "jsstring option"

definition EditorView_init :: EditorView where
  "EditorView_init =
     \<lparr>isLoading = False, error = None, isCopied = False, activeTab = PreviewTab,
      pastedCode = [], inputFileName = [], validationError = None,
      imagePreview = None, imageBase64 = None, imageMimeType = None\<rparr>"

text \<open>The page: \<open>App\<close> renders one \<open>EditorView\<close> and passes its handlers as props.\<close>

record page =
  app :: App
  editor :: EditorView

definition page_init :: page where
  "page_init = \<lparr>app = App_init, editor = EditorView_init\<rparr>"

definition onGenerationStart :: "jsstring \<Rightarrow> jsstring \<Rightarrow> ProjectFile list \<Rightarrow> page \<Rightarrow> page" where
  "onGenerationStart fname fpath files pg =
     pg\<lparr>app := handleGenerationStart fname fpath files (app pg)\<rparr>"

definition onStreamUpdate :: "jsstring \<Rightarrow> jsstring \<Rightarrow> page \<Rightarrow> page" where
  "onStreamUpdate p htmlChunk pg = pg\<lparr>app := handleStreamUpdate p htmlChunk (app pg)\<rparr>"

definition setValidationError :: "jsstring option \<Rightarrow> page \<Rightarrow> page" where
  "setValidationError v pg = pg\<lparr>editor := (editor pg)\<lparr>validationError := v\<rparr>\<rparr>"

definition setError :: "jsstring option \<Rightarrow> page \<Rightarrow> page" where
  "setError v pg = pg\<lparr>editor := (editor pg)\<lparr>error := v\<rparr>\<rparr>"

definition setIsLoading :: "bool \<Rightarrow> page \<Rightarrow> page" where
  "setIsLoading b pg = pg\<lparr>editor := (editor pg)\<lparr>isLoading := b\<rparr>\<rparr>"

definition setActiveTab :: "tab \<Rightarrow> page \<Rightarrow> page" where
  "setActiveTab t pg = pg\<lparr>editor := (editor pg)\<lparr>activeTab := t\<rparr>\<rparr>"

subsection \<open>Pasted code\<close>

definition processPastedCode :: "jsstring \<Rightarrow> jsstring \<Rightarrow> page \<Rightarrow> page" where
  "processPastedCode pasted fname pg =
     (let projectFiles = [\<lparr>ProjectFile.name = fname, code = pasted\<rparr>]
      in onGenerationStart fname fname projectFiles pg)"

definition pasteMessage :: jsstring where
  "pasteMessage = js ''Please paste some code to convert.''"

definition fileNameMessage :: jsstring where
  "fileNameMessage =
     js ''Please provide a valid file name with an extension (e.g., script.js).''"

definition handleGenerateFromText :: "page \<Rightarrow> page" where
  "handleGenerateFromText pg =
     (let pasted = pastedCode (editor pg);
          fname = inputFileName (editor pg);
          pg1 = setValidationError None pg
      in if trim pasted = [] then setValidationError (Some pasteMessage) pg1
         else if trim fname = [] \<or> \<not> includes_str fname (js ''.'')
           then setValidationError (Some fileNameMessage) pg1
         else processPastedCode pasted fname pg1)"

subsection \<open>The generation effect\<close>

text \<open>
  The effect reads \<open>activeFile.sourceFiles.length\<close> of any truthy \<open>activeFile\<close> and
  starts a run for an entry with source files and empty output. \<open>generateEffect\<close> is
  that decision: the entry a run is started for, if any, or the throw.
\<close>

definition generateEffect :: "page \<Rightarrow> jserror + ProcessedFile option" where
  "generateEffect pg =
     (case activeFileData (app pg) of
        Undefined \<Rightarrow> Inr None
      | Inherited \<Rightarrow> Inl TypeError
      | Own (OutputOnly html) \<Rightarrow> Inl TypeError
      | Own (Entry file) \<Rightarrow>
          Inr (if length (sourceFiles file) > 0 \<and> generatedHtml file = []
               then Some file else None))"

text \<open>
  \<open>generate\<close> is asynchronous: it runs up to the call of the generation service, is
  resumed once for every chunk the service hands to the callback, and once more when the
  promise settles. Other events can come in between, so each of these steps is a state
  transition of its own. \<open>generateHtmlForProjectStream\<close> belongs to the generation
  service; what it delivers and how it settles is not fixed here. A rejection carries
  the thrown value, of which the handler asks whether it is an \<open>Error\<close> and, if so, for
  its message.
\<close>

datatype thrown = ErrorObject jsstring | OtherValue

definition errorMessage :: "thrown \<Rightarrow> jsstring" where
  "errorMessage err =
     (case err of
        ErrorObject message \<Rightarrow> message
      | OtherValue \<Rightarrow> js ''An unknown error occurred.'')"

definition generateStart :: "page \<Rightarrow> page" where
  "generateStart pg = setActiveTab PreviewTab (setError None (setIsLoading True pg))"

definition generateChunk :: "ProcessedFile \<Rightarrow> jsstring \<Rightarrow> page \<Rightarrow> page" where
  "generateChunk file chunk pg = onStreamUpdate (path file) chunk pg"

definition generateRejected :: "thrown \<Rightarrow> page \<Rightarrow> page" where
  "generateRejected err pg = setIsLoading False (setError (Some (errorMessage err)) pg)"

definition generateResolved :: "page \<Rightarrow> page" where
  "generateResolved pg = setIsLoading False pg"

subsection \<open>What the view shows\<close>

text \<open>
  \<open>renderContent\<close> picks one of three panels: the error panel when \<open>error\<close> is truthy,
  else the project panel for a truthy \<open>activeFile\<close>, else the intake form. A string is
  truthy when it is not empty.
\<close>

datatype content = ErrorPanel jsstring | ProjectPanel read tab | IntakeForm

definition renderContent :: "page \<Rightarrow> content" where
  "renderContent pg =
     (let active = (case activeFileData (app pg) of
                      Undefined \<Rightarrow> IntakeForm
                    | Own e \<Rightarrow> ProjectPanel (Own e) (activeTab (editor pg))
                    | Inherited \<Rightarrow> ProjectPanel Inherited (activeTab (editor pg)))
      in case error (editor pg) of
           None \<Rightarrow> active
         | Some message \<Rightarrow> if message \<noteq> [] then ErrorPanel message else active)"

section \<open>The project registry\<close>

lemma readKey_Undefined_iff:
  "readKey obj key = Undefined \<longleftrightarrow> obj key = None \<and> key \<notin> set objectPrototypeNames"
  by (simp add: readKey_def split: option.splits)

subsection \<open>Creating an entry\<close>

text \<open>
  C4. \<open>handleGenerationStart\<close> (the spec's \<open>createEntry\<close>) maps the path to an entry with
  the given name, path and source files and with empty output, makes the path the active
  one and leaves every other path alone. Whatever was stored at the path before has no
  influence on the result: it is replaced, not merged.
\<close>

theorem handleGenerationStart_creates:
  "processedFiles (handleGenerationStart n p fs s) p
       = Some (Entry \<lparr>name = n, path = p, sourceFiles = fs, generatedHtml = []\<rparr>)
   \<and> activeFile (handleGenerationStart n p fs s) = Some p
   \<and> (\<forall>q. q \<noteq> p \<longrightarrow> processedFiles (handleGenerationStart n p fs s) q = processedFiles s q)
   \<and> handleGenerationStart n p fs (s\<lparr>processedFiles := (processedFiles s)(p \<mapsto> old)\<rparr>)
       = handleGenerationStart n p fs s"
  by (simp add: handleGenerationStart_def)

theorem handleGenerationStart_creates_witness:
  "js ''b.js'' \<noteq> js ''a.js''
   \<and> processedFiles (handleGenerationStart (js ''a.js'') (js ''a.js'')
         [\<lparr>ProjectFile.name = js ''a.js'', code = js ''1''\<rparr>]
         (handleGenerationStart (js ''b.js'') (js ''b.js'') [] App_init)) (js ''b.js'')
     = Some (Entry \<lparr>name = js ''b.js'', path = js ''b.js'', sourceFiles = [],
                    generatedHtml = []\<rparr>)"
  using handleGenerationStart_creates
          [of "js ''a.js''" "js ''a.js''" "[\<lparr>ProjectFile.name = js ''a.js'', code = js ''1''\<rparr>]"
              "handleGenerationStart (js ''b.js'') (js ''b.js'') [] App_init"]
  by (simp add: js_def handleGenerationStart_def App_init_def)

subsection \<open>Appending source files\<close>

text \<open>
  On a path that reads \<open>undefined\<close>, and on a full entry all of whose new files carry
  names it already has, \<open>handleAddFilesToProject\<close> returns the state as it was. On a
  full entry with some new name it appends the files of new names in their order and
  empties the output.
\<close>

lemma handleAddFilesToProject_undefined:
  "readKey (processedFiles s) p = Undefined \<Longrightarrow> handleAddFilesToProject p newFiles s = Inr s"
  by (simp add: handleAddFilesToProject_def)

lemma handleAddFilesToProject_all_known:
  "\<lbrakk>processedFiles s p = Some (Entry e);
    \<forall>f\<in>set newFiles. ProjectFile.name f \<in> ProjectFile.name ` set (sourceFiles e)\<rbrakk>
     \<Longrightarrow> handleAddFilesToProject p newFiles s = Inr s"
  by (auto simp: handleAddFilesToProject_def readKey_def Let_def filter_empty_conv)

lemma handleAddFilesToProject_appends:
  "\<lbrakk>processedFiles s p = Some (Entry e);
    \<not> (\<forall>f\<in>set newFiles. ProjectFile.name f \<in> ProjectFile.name ` set (sourceFiles e))\<rbrakk>
     \<Longrightarrow> handleAddFilesToProject p newFiles s
          = Inr (s\<lparr>processedFiles := (processedFiles s)(p \<mapsto>
                   Entry (e\<lparr>sourceFiles := sourceFiles e @
                              filter (\<lambda>f. ProjectFile.name f \<notin> ProjectFile.name ` set (sourceFiles e))
                                newFiles,
                            generatedHtml := []\<rparr>))\<rparr>)"
  by (auto simp: handleAddFilesToProject_def readKey_def Let_def filter_empty_conv)

text \<open>
  C1 has \<open>appendSourceFiles\<close> leave the registry unchanged whenever the path is not a key
  of the registry. \<open>handleAddFilesToProject\<close> does not for a path that names a member of
  \<open>Object.prototype\<close>: the read \<open>prev[projectPath]\<close> finds the inherited member, the
  guard \<open>!project\<close> lets it pass, and \<open>project.sourceFiles.map\<close> throws. So it is on the
  empty registry for the path toString, and for the path constructor after an entry of
  that path was created and the registry reset.
\<close>

theorem handleAddFilesToProject_inherited_throws:
  "processedFiles App_init (js ''toString'') = None
   \<and> handleAddFilesToProject (js ''toString'')
        [\<lparr>ProjectFile.name = js ''b.js'', code = js ''2''\<rparr>] App_init = Inl TypeError
   \<and> processedFiles
        (handleReset (handleGenerationStart (js ''constructor'') (js ''constructor'')
           [\<lparr>ProjectFile.name = js ''constructor'', code = js ''1''\<rparr>] App_init))
        (js ''constructor'') = None
   \<and> handleAddFilesToProject (js ''constructor'')
        [\<lparr>ProjectFile.name = js ''b.js'', code = js ''2''\<rparr>]
        (handleReset (handleGenerationStart (js ''constructor'') (js ''constructor'')
           [\<lparr>ProjectFile.name = js ''constructor'', code = js ''1''\<rparr>] App_init))
       = Inl TypeError"
  by (simp add: handleAddFilesToProject_def readKey_def objectPrototypeNames_def js_def
        App_init_def handleReset_def handleGenerationStart_def)

subsection \<open>Appending output\<close>

text \<open>
  On a path that reads \<open>undefined\<close> \<open>handleStreamUpdate\<close> returns the state as it was,
  and on a full entry it appends the chunk to the entry's output.
\<close>

lemma handleStreamUpdate_undefined:
  "readKey (processedFiles s) p = Undefined \<Longrightarrow> handleStreamUpdate p chunk s = s"
  by (simp add: handleStreamUpdate_def)

lemma handleStreamUpdate_entry:
  "processedFiles s p = Some (Entry e) \<Longrightarrow>
     handleStreamUpdate p chunk s
       = s\<lparr>processedFiles := (processedFiles s)(p \<mapsto>
              Entry (e\<lparr>generatedHtml := generatedHtml e @ chunk\<rparr>))\<rparr>"
  by (simp add: handleStreamUpdate_def readKey_def)

text \<open>
  C2 has \<open>appendOutputChunk\<close> leave the registry unchanged whenever the path is not a key
  of the registry. \<open>handleStreamUpdate\<close> does not for a path that names a member of
  \<open>Object.prototype\<close>: on the empty registry the chunk x for the path toString stores,
  under toString, an object whose output is undefinedx.
\<close>

theorem handleStreamUpdate_inherited_inserts:
  "processedFiles App_init (js ''toString'') = None
   \<and> processedFiles (handleStreamUpdate (js ''toString'') (js ''x'') App_init) (js ''toString'')
       = Some (OutputOnly (js ''undefinedx''))"
  by (simp add: handleStreamUpdate_def readKey_def objectPrototypeNames_def js_def App_init_def)

text \<open>
  C10. Two chunks appended one after the other leave the state that their concatenation
  appended at once leaves, and the empty chunk leaves the state as it was.
\<close>

theorem handleStreamUpdate_concat:
  "processedFiles s p = Some e \<Longrightarrow>
     handleStreamUpdate p b (handleStreamUpdate p a s) = handleStreamUpdate p (a @ b) s
     \<and> handleStreamUpdate p [] s = s"
  by (cases e) (simp_all add: handleStreamUpdate_def readKey_def map_upd_triv)

theorem handleStreamUpdate_concat_witness:
  "processedFiles (handleGenerationStart (js ''x.py'') (js ''x.py'') [] App_init) (js ''x.py'')
       = Some (Entry \<lparr>name = js ''x.py'', path = js ''x.py'', sourceFiles = [],
                      generatedHtml = []\<rparr>)
   \<and> handleStreamUpdate (js ''x.py'') (js ''<p>'')
        (handleStreamUpdate (js ''x.py'') (js ''<html>'')
          (handleGenerationStart (js ''x.py'') (js ''x.py'') [] App_init))
      = handleStreamUpdate (js ''x.py'') (js ''<html><p>'')
          (handleGenerationStart (js ''x.py'') (js ''x.py'') [] App_init)"
  using handleStreamUpdate_concat
          [of "handleGenerationStart (js ''x.py'') (js ''x.py'') [] App_init" "js ''x.py''"
              "Entry \<lparr>name = js ''x.py'', path = js ''x.py'', sourceFiles = [],
                      generatedHtml = []\<rparr>"
              "js ''<p>''" "js ''<html>''"]
  by (simp add: js_def handleGenerationStart_def App_init_def)

subsection \<open>Reset\<close>

text \<open>
  C5 has a chunk that arrives after \<open>reset\<close>, for a path that was a key before, change
  nothing. After \<open>handleReset\<close> the registry is empty and no path is active, but a late
  chunk for the path constructor, a key before the reset, finds the inherited member of
  that name and stores an object whose output is undefinedlate.
\<close>

theorem handleReset_then_late_chunk:
  "js ''constructor''
     \<in> dom (processedFiles (handleGenerationStart (js ''constructor'') (js ''constructor'')
           [\<lparr>ProjectFile.name = js ''constructor'', code = js ''1''\<rparr>] App_init))
   \<and> handleReset (handleGenerationStart (js ''constructor'') (js ''constructor'')
           [\<lparr>ProjectFile.name = js ''constructor'', code = js ''1''\<rparr>] App_init) = App_init
   \<and> processedFiles
        (handleStreamUpdate (js ''constructor'') (js ''late'')
          (handleReset (handleGenerationStart (js ''constructor'') (js ''constructor'')
             [\<lparr>ProjectFile.name = js ''constructor'', code = js ''1''\<rparr>] App_init)))
        (js ''constructor'')
       = Some (OutputOnly (js ''undefinedlate''))"
  by (simp add: handleStreamUpdate_def readKey_def objectPrototypeNames_def js_def
        App_init_def handleReset_def handleGenerationStart_def)

subsection \<open>Distinct file names\<close>

text \<open>
  C3, as the spec states it, fails: \<open>handleGenerationStart\<close> stores the files it is
  given, and \<open>handleAddFilesToProject\<close> compares the new files with the names the entry
  has, not with one another. Two files of one name in the first selection, or twice the
  same new name in one later selection, leave an entry with a repeated name.
\<close>

theorem repeated_name_counterexample:
  "run [GenerationStart (js ''proj'') (js ''proj'')
          [\<lparr>ProjectFile.name = js ''a.js'', code = js ''1''\<rparr>,
           \<lparr>ProjectFile.name = js ''a.js'', code = js ''2''\<rparr>]]
     = Inr \<lparr>processedFiles =
              [js ''proj'' \<mapsto> Entry \<lparr>name = js ''proj'', path = js ''proj'',
                 sourceFiles = [\<lparr>ProjectFile.name = js ''a.js'', code = js ''1''\<rparr>,
                                \<lparr>ProjectFile.name = js ''a.js'', code = js ''2''\<rparr>],
                 generatedHtml = []\<rparr>],
            activeFile = Some (js ''proj'')\<rparr>
   \<and> \<not> uniqueNames \<lparr>name = js ''proj'', path = js ''proj'',
                 sourceFiles = [\<lparr>ProjectFile.name = js ''a.js'', code = js ''1''\<rparr>,
                                \<lparr>ProjectFile.name = js ''a.js'', code = js ''2''\<rparr>],
                 generatedHtml = []\<rparr>
   \<and> run [GenerationStart (js ''proj'') (js ''proj'')
            [\<lparr>ProjectFile.name = js ''a.js'', code = js ''1''\<rparr>],
          AddFilesToProject (js ''proj'')
            [\<lparr>ProjectFile.name = js ''b.js'', code = js ''2''\<rparr>,
             \<lparr>ProjectFile.name = js ''b.js'', code = js ''3''\<rparr>]]
     = Inr \<lparr>processedFiles =
              [js ''proj'' \<mapsto> Entry \<lparr>name = js ''proj'', path = js ''proj'',
                 sourceFiles = [\<lparr>ProjectFile.name = js ''a.js'', code = js ''1''\<rparr>,
                                \<lparr>ProjectFile.name = js ''b.js'', code = js ''2''\<rparr>,
                                \<lparr>ProjectFile.name = js ''b.js'', code = js ''3''\<rparr>],
                 generatedHtml = []\<rparr>],
            activeFile = Some (js ''proj'')\<rparr>
   \<and> \<not> uniqueNames \<lparr>name = js ''proj'', path = js ''proj'',
                 sourceFiles = [\<lparr>ProjectFile.name = js ''a.js'', code = js ''1''\<rparr>,
                                \<lparr>ProjectFile.name = js ''b.js'', code = js ''2''\<rparr>,
                                \<lparr>ProjectFile.name = js ''b.js'', code = js ''3''\<rparr>],
                 generatedHtml = []\<rparr>"
  by (simp add: run_def App_init_def handleGenerationStart_def handleAddFilesToProject_def
        readKey_def uniqueNames_def js_def)

lemma disjoint_image_rest: "g ` A \<inter> g ` {x \<in> B. g x \<notin> g ` A} = {}"
proof (rule ccontr)
  assume "g ` A \<inter> g ` {x \<in> B. g x \<notin> g ` A} \<noteq> {}"
  then obtain y where "y \<in> g ` A" and "y \<in> g ` {x \<in> B. g x \<notin> g ` A}" by blast
  then obtain x where "y = g x" and "g x \<notin> g ` A" by blast
  with \<open>y \<in> g ` A\<close> show False by simp
qed

lemma distinct_append_unique:
  assumes "distinct (map ProjectFile.name xs)" and "distinct (map ProjectFile.name ys)"
  shows "distinct (map ProjectFile.name
           (xs @ filter (\<lambda>f. ProjectFile.name f \<notin> set (map ProjectFile.name xs)) ys))"
proof -
  have "ProjectFile.name ` set xs \<inter>
          ProjectFile.name ` {f \<in> set ys. ProjectFile.name f \<notin> ProjectFile.name ` set xs} = {}"
    by (rule disjoint_image_rest)
  with assms show ?thesis
    by (simp add: distinct_map_filter)
qed

lemma dispatch_registryUnique:
  assumes "registryUnique s" and "distinctInput ev" and "dispatch s ev = Inr s'"
  shows "registryUnique s'"
proof (cases ev)
  case (GenerationStart fname fpath files)
  with assms show ?thesis
    by (auto simp: registryUnique_def handleGenerationStart_def uniqueNames_def
             split: if_splits)
next
  case (AddFilesToProject p newFiles)
  show ?thesis
  proof (cases "readKey (processedFiles s) p")
    case (Own e)
    show ?thesis
    proof (cases e)
      case (Entry project)
      with Own have stored: "processedFiles s p = Some (Entry project)"
        by (simp add: readKey_def split: option.splits if_splits)
      with assms(1) have "distinct (map ProjectFile.name (sourceFiles project))"
        by (simp add: registryUnique_def uniqueNames_def)
      moreover from assms(2) AddFilesToProject have "distinct (map ProjectFile.name newFiles)"
        by simp
      ultimately have "distinct (map ProjectFile.name (sourceFiles project @
          filter (\<lambda>f. ProjectFile.name f \<notin> set (map ProjectFile.name (sourceFiles project)))
            newFiles))"
        by (rule distinct_append_unique)
      with assms(1,3) Own Entry AddFilesToProject show ?thesis
        by (auto simp: registryUnique_def handleAddFilesToProject_def uniqueNames_def Let_def
                 split: if_splits)
    next
      case (OutputOnly html)
      with assms(3) Own AddFilesToProject show ?thesis
        by (simp add: handleAddFilesToProject_def)
    qed
  next
    case Inherited
    with assms(3) AddFilesToProject show ?thesis
      by (simp add: handleAddFilesToProject_def)
  next
    case Undefined
    with assms(1,3) AddFilesToProject show ?thesis
      by (auto simp: handleAddFilesToProject_def)
  qed
next
  case (StreamUpdate p htmlChunk)
  with assms(1,3) show ?thesis
    by (auto simp: registryUnique_def handleStreamUpdate_def readKey_def uniqueNames_def
             split: option.splits if_splits entry.splits)
next
  case Reset
  with assms(3) show ?thesis by (auto simp: registryUnique_def handleReset_def)
qed

lemma runFrom_registryUnique:
  "\<lbrakk>registryUnique s0; \<forall>ev\<in>set evs. distinctInput ev; runFrom s0 evs = Inr s\<rbrakk>
     \<Longrightarrow> registryUnique s"
proof (induction evs arbitrary: s0)
  case Nil
  then show ?case by simp
next
  case (Cons ev evs)
  from Cons.prems(3) obtain s1 where step: "dispatch s0 ev = Inr s1"
    and rest: "runFrom s1 evs = Inr s"
    by (auto split: sum.splits)
  from Cons.prems(1,2) step have "registryUnique s1"
    by (auto intro: dispatch_registryUnique)
  with Cons.prems(2) rest show ?case
    by (auto intro: Cons.IH)
qed

text \<open>
  C3, amended. When every operation of the sequence brings in files with pairwise
  distinct names, every entry of a state reached from the empty registry has source
  files with pairwise distinct names.
\<close>

theorem run_uniqueNames:
  "\<lbrakk>\<forall>ev\<in>set evs. distinctInput ev; run evs = Inr s; processedFiles s p = Some (Entry e)\<rbrakk>
     \<Longrightarrow> uniqueNames e"
proof -
  assume inputs: "\<forall>ev\<in>set evs. distinctInput ev" and reached: "run evs = Inr s"
    and stored: "processedFiles s p = Some (Entry e)"
  have "registryUnique App_init" by (simp add: registryUnique_def App_init_def)
  with inputs reached have "registryUnique s"
    unfolding run_def by (auto intro: runFrom_registryUnique)
  with stored show "uniqueNames e" by (simp add: registryUnique_def)
qed

theorem run_uniqueNames_witness:
  "list_all distinctInput
      [GenerationStart (js ''proj'') (js ''proj'')
         [\<lparr>ProjectFile.name = js ''a.js'', code = js ''1''\<rparr>],
       StreamUpdate (js ''proj'') (js ''<html>''),
       AddFilesToProject (js ''proj'')
         [\<lparr>ProjectFile.name = js ''a.js'', code = js ''3''\<rparr>,
          \<lparr>ProjectFile.name = js ''b.js'', code = js ''2''\<rparr>]]
   \<and> run [GenerationStart (js ''proj'') (js ''proj'')
            [\<lparr>ProjectFile.name = js ''a.js'', code = js ''1''\<rparr>],
          StreamUpdate (js ''proj'') (js ''<html>''),
          AddFilesToProject (js ''proj'')
            [\<lparr>ProjectFile.name = js ''a.js'', code = js ''3''\<rparr>,
             \<lparr>ProjectFile.name = js ''b.js'', code = js ''2''\<rparr>]]
       = Inr \<lparr>processedFiles =
                [js ''proj'' \<mapsto> Entry \<lparr>name = js ''proj'', path = js ''proj'',
                   sourceFiles = [\<lparr>ProjectFile.name = js ''a.js'', code = js ''1''\<rparr>,
                                  \<lparr>ProjectFile.name = js ''b.js'', code = js ''2''\<rparr>],
                   generatedHtml = []\<rparr>],
              activeFile = Some (js ''proj'')\<rparr>
   \<and> uniqueNames \<lparr>name = js ''proj'', path = js ''proj'',
               sourceFiles = [\<lparr>ProjectFile.name = js ''a.js'', code = js ''1''\<rparr>,
                              \<lparr>ProjectFile.name = js ''b.js'', code = js ''2''\<rparr>],
               generatedHtml = []\<rparr>"
  using run_uniqueNames
          [of "[GenerationStart (js ''proj'') (js ''proj'')
                  [\<lparr>ProjectFile.name = js ''a.js'', code = js ''1''\<rparr>],
                StreamUpdate (js ''proj'') (js ''<html>''),
                AddFilesToProject (js ''proj'')
                  [\<lparr>ProjectFile.name = js ''a.js'', code = js ''3''\<rparr>,
                   \<lparr>ProjectFile.name = js ''b.js'', code = js ''2''\<rparr>]]"
              "\<lparr>processedFiles =
                [js ''proj'' \<mapsto> Entry \<lparr>name = js ''proj'', path = js ''proj'',
                   sourceFiles = [\<lparr>ProjectFile.name = js ''a.js'', code = js ''1''\<rparr>,
                                  \<lparr>ProjectFile.name = js ''b.js'', code = js ''2''\<rparr>],
                   generatedHtml = []\<rparr>],
              activeFile = Some (js ''proj'')\<rparr>"
              "js ''proj''"
              "\<lparr>name = js ''proj'', path = js ''proj'',
                sourceFiles = [\<lparr>ProjectFile.name = js ''a.js'', code = js ''1''\<rparr>,
                               \<lparr>ProjectFile.name = js ''b.js'', code = js ''2''\<rparr>],
                generatedHtml = []\<rparr>"]
  by (simp add: run_def App_init_def handleGenerationStart_def handleStreamUpdate_def
        handleAddFilesToProject_def readKey_def js_def)

section \<open>The generation run\<close>

text \<open>
  Chunks that arrive for a full entry are appended in their order of arrival, and the
  handling of a rejection stores the message and leaves the registry alone.
\<close>

lemma foldl_onStreamUpdate:
  "processedFiles (app pg) p = Some (Entry e) \<Longrightarrow>
   foldl (\<lambda>st chunk. onStreamUpdate p chunk st) pg chunks
     = pg\<lparr>app := (app pg)\<lparr>processedFiles := (processedFiles (app pg))(p \<mapsto>
              Entry (e\<lparr>generatedHtml := generatedHtml e @ concat chunks\<rparr>))\<rparr>\<rparr>"
proof (induction chunks arbitrary: pg e)
  case Nil
  then show ?case by (simp add: map_upd_triv)
next
  case (Cons chunk chunks)
  let ?pg = "onStreamUpdate p chunk pg"
  from Cons.prems have step:
    "processedFiles (app ?pg) p = Some (Entry (e\<lparr>generatedHtml := generatedHtml e @ chunk\<rparr>))"
    by (simp add: onStreamUpdate_def handleStreamUpdate_entry)
  have "foldl (\<lambda>st chunk. onStreamUpdate p chunk st) pg (chunk # chunks)
          = foldl (\<lambda>st chunk. onStreamUpdate p chunk st) ?pg chunks"
    by simp
  also have "\<dots> = ?pg\<lparr>app := (app ?pg)\<lparr>processedFiles := (processedFiles (app ?pg))(p \<mapsto>
              Entry ((e\<lparr>generatedHtml := generatedHtml e @ chunk\<rparr>)
                \<lparr>generatedHtml := generatedHtml (e\<lparr>generatedHtml := generatedHtml e @ chunk\<rparr>)
                                   @ concat chunks\<rparr>))\<rparr>\<rparr>"
    by (rule Cons.IH [OF step])
  also from Cons.prems have "\<dots> = pg\<lparr>app := (app pg)\<lparr>processedFiles := (processedFiles (app pg))(p \<mapsto>
              Entry (e\<lparr>generatedHtml := generatedHtml e @ concat (chunk # chunks)\<rparr>))\<rparr>\<rparr>"
    by (simp add: onStreamUpdate_def handleStreamUpdate_entry)
  finally show ?case .
qed

lemma generateRejected_app: "app (generateRejected err pg) = app pg"
  by (simp add: generateRejected_def setIsLoading_def setError_def)

lemma generateRejected_error: "error (editor (generateRejected err pg)) = Some (errorMessage err)"
  by (simp add: generateRejected_def setIsLoading_def setError_def)

text \<open>
  C6 has every failure of the streaming call surface as an error message in place of
  the output. The catch block takes the message of an \<open>Error\<close> as it is, and the view
  shows the error panel only for a truthy \<open>error\<close>. After a pasted file x.py the effect
  starts a run; the run delivers one chunk and is rejected with an \<open>Error\<close> whose
  message is empty: \<open>error\<close> is then the empty string and the view shows the project
  with its partial output. Rejected with a value that is not an \<open>Error\<close>, the same run
  shows the error panel with the fallback text.
\<close>

theorem empty_message_hides_failure:
  "generateEffect (onGenerationStart (js ''x.py'') (js ''x.py'')
       [\<lparr>ProjectFile.name = js ''x.py'', code = js ''print(1)''\<rparr>] page_init)
     = Inr (Some \<lparr>name = js ''x.py'', path = js ''x.py'',
                  sourceFiles = [\<lparr>ProjectFile.name = js ''x.py'', code = js ''print(1)''\<rparr>],
                  generatedHtml = []\<rparr>)
   \<and> error (editor
        (generateRejected (ErrorObject [])
          (generateChunk \<lparr>name = js ''x.py'', path = js ''x.py'',
                  sourceFiles = [\<lparr>ProjectFile.name = js ''x.py'', code = js ''print(1)''\<rparr>],
                  generatedHtml = []\<rparr> (js ''<html>'')
            (generateStart (onGenerationStart (js ''x.py'') (js ''x.py'')
               [\<lparr>ProjectFile.name = js ''x.py'', code = js ''print(1)''\<rparr>] page_init)))))
     = Some []
   \<and> renderContent
        (generateRejected (ErrorObject [])
          (generateChunk \<lparr>name = js ''x.py'', path = js ''x.py'',
                  sourceFiles = [\<lparr>ProjectFile.name = js ''x.py'', code = js ''print(1)''\<rparr>],
                  generatedHtml = []\<rparr> (js ''<html>'')
            (generateStart (onGenerationStart (js ''x.py'') (js ''x.py'')
               [\<lparr>ProjectFile.name = js ''x.py'', code = js ''print(1)''\<rparr>] page_init))))
     = ProjectPanel
         (Own (Entry \<lparr>name = js ''x.py'', path = js ''x.py'',
            sourceFiles = [\<lparr>ProjectFile.name = js ''x.py'', code = js ''print(1)''\<rparr>],
            generatedHtml = js ''<html>''\<rparr>)) PreviewTab
   \<and> renderContent
        (generateRejected OtherValue
          (generateChunk \<lparr>name = js ''x.py'', path = js ''x.py'',
                  sourceFiles = [\<lparr>ProjectFile.name = js ''x.py'', code = js ''print(1)''\<rparr>],
                  generatedHtml = []\<rparr> (js ''<html>'')
            (generateStart (onGenerationStart (js ''x.py'') (js ''x.py'')
               [\<lparr>ProjectFile.name = js ''x.py'', code = js ''print(1)''\<rparr>] page_init))))
     = ErrorPanel (js ''An unknown error occurred.'')"
  by (simp add: generateEffect_def generateStart_def generateChunk_def generateRejected_def
        activeFileData_def readKey_def onGenerationStart_def handleGenerationStart_def
        onStreamUpdate_def handleStreamUpdate_def page_init_def App_init_def EditorView_init_def
        setActiveTab_def setError_def setIsLoading_def errorMessage_def renderContent_def js_def)

section \<open>Pasted input\<close>

lemma trim_Nil_iff: "trim s = [] \<longleftrightarrow> (\<forall>c\<in>set s. isWhiteSpace c)"
proof -
  have "trim s = [] \<longleftrightarrow> (\<forall>c\<in>set (dropWhile isWhiteSpace s). isWhiteSpace c)"
    by (simp add: trim_def)
  also have "\<dots> \<longleftrightarrow> dropWhile isWhiteSpace s = []"
  proof
    assume all: "\<forall>c\<in>set (dropWhile isWhiteSpace s). isWhiteSpace c"
    show "dropWhile isWhiteSpace s = []"
    proof (rule ccontr)
      assume ne: "dropWhile isWhiteSpace s \<noteq> []"
      then have "\<not> isWhiteSpace (hd (dropWhile isWhiteSpace s))"
        by (rule hd_dropWhile)
      moreover from ne have "hd (dropWhile isWhiteSpace s) \<in> set (dropWhile isWhiteSpace s)"
        by (rule hd_in_set)
      ultimately show False using all by blast
    qed
  next
    assume "dropWhile isWhiteSpace s = []"
    then show "\<forall>c\<in>set (dropWhile isWhiteSpace s). isWhiteSpace c"
      by (simp only: list.set ball_empty)
  qed
  also have "\<dots> \<longleftrightarrow> (\<forall>c\<in>set s. isWhiteSpace c)"
    by (rule dropWhile_eq_Nil_conv)
  finally show ?thesis .
qed

lemma includes_dot_iff: "includes_str s (js ''.'') \<longleftrightarrow> 0x2E \<in> set s"
  by (auto simp: includes_str_def js_def sublist_def in_set_conv_decomp)

text \<open>
  C8. Pasted code that is empty or consists of white space only is refused with the
  paste message and the registry and the active path stay as they were. A file name
  without a dot is refused with a validation message, whatever the pasted code, and
  again nothing is created. Code with some character that is not white space, under the
  file name a.txt, is accepted: no validation message remains, the registry has at path
  a.txt an entry named a.txt whose one source file is a.txt with the pasted code, with
  empty output, and a.txt is the active path.
\<close>

theorem handleGenerateFromText_validation:
  "((\<forall>c\<in>set (pastedCode (editor pg)). isWhiteSpace c) \<longrightarrow>
       validationError (editor (handleGenerateFromText pg)) = Some pasteMessage
       \<and> app (handleGenerateFromText pg) = app pg)
   \<and> (pastedCode (editor pg) \<noteq> [] \<and> 0x2E \<notin> set (inputFileName (editor pg)) \<longrightarrow>
       validationError (editor (handleGenerateFromText pg))
         \<in> {Some pasteMessage, Some fileNameMessage}
       \<and> app (handleGenerateFromText pg) = app pg)
   \<and> (\<not> (\<forall>c\<in>set (pastedCode (editor pg)). isWhiteSpace c)
        \<and> inputFileName (editor pg) = js ''a.txt'' \<longrightarrow>
       validationError (editor (handleGenerateFromText pg)) = None
       \<and> processedFiles (app (handleGenerateFromText pg)) (js ''a.txt'')
           = Some (Entry \<lparr>name = js ''a.txt'', path = js ''a.txt'',
                   sourceFiles = [\<lparr>ProjectFile.name = js ''a.txt'',
                                    code = pastedCode (editor pg)\<rparr>],
                   generatedHtml = []\<rparr>)
       \<and> activeFile (app (handleGenerateFromText pg)) = Some (js ''a.txt''))"
proof (intro conjI impI)
  assume "\<forall>c\<in>set (pastedCode (editor pg)). isWhiteSpace c"
  then have "trim (pastedCode (editor pg)) = []" by (simp only: trim_Nil_iff)
  then show "validationError (editor (handleGenerateFromText pg)) = Some pasteMessage"
    and "app (handleGenerateFromText pg) = app pg"
    by (simp_all add: handleGenerateFromText_def Let_def setValidationError_def)
next
  assume "pastedCode (editor pg) \<noteq> [] \<and> 0x2E \<notin> set (inputFileName (editor pg))"
  then have "\<not> includes_str (inputFileName (editor pg)) (js ''.'')"
    by (simp add: includes_dot_iff)
  then show "validationError (editor (handleGenerateFromText pg))
         \<in> {Some pasteMessage, Some fileNameMessage}"
    and "app (handleGenerateFromText pg) = app pg"
    by (simp_all add: handleGenerateFromText_def Let_def setValidationError_def)
next
  assume h: "\<not> (\<forall>c\<in>set (pastedCode (editor pg)). isWhiteSpace c)
        \<and> inputFileName (editor pg) = js ''a.txt''"
  then have pasted: "trim (pastedCode (editor pg)) \<noteq> []" by (simp add: trim_Nil_iff)
  from h have fname: "inputFileName (editor pg) = js ''a.txt''" by simp
  have trimmed: "trim (js ''a.txt'') \<noteq> []"
    by (simp add: trim_Nil_iff js_def isWhiteSpace_def)
  have dot: "includes_str (js ''a.txt'') (js ''.'')"
    by (simp add: includes_dot_iff) (simp add: js_def)
  have accepted: "handleGenerateFromText pg
      = processPastedCode (pastedCode (editor pg)) (js ''a.txt'') (setValidationError None pg)"
    using pasted fname trimmed dot by (simp add: handleGenerateFromText_def Let_def)
  show "validationError (editor (handleGenerateFromText pg)) = None"
    and "processedFiles (app (handleGenerateFromText pg)) (js ''a.txt'')
           = Some (Entry \<lparr>name = js ''a.txt'', path = js ''a.txt'',
                   sourceFiles = [\<lparr>ProjectFile.name = js ''a.txt'',
                                    code = pastedCode (editor pg)\<rparr>],
                   generatedHtml = []\<rparr>)"
    and "activeFile (app (handleGenerateFromText pg)) = Some (js ''a.txt'')"
    unfolding accepted
    by (simp_all add: processPastedCode_def onGenerationStart_def handleGenerationStart_def
          setValidationError_def)
qed

theorem handleGenerateFromText_validation_witness:
  "list_all isWhiteSpace [0x20, 0x09, 0x0A]
   \<and> validationError (editor (handleGenerateFromText
        (page_init\<lparr>editor := EditorView_init\<lparr>pastedCode := [0x20, 0x09, 0x0A],
                                               inputFileName := js ''a.txt''\<rparr>\<rparr>)))
       = Some pasteMessage
   \<and> app (handleGenerateFromText
        (page_init\<lparr>editor := EditorView_init\<lparr>pastedCode := [0x20, 0x09, 0x0A],
                                               inputFileName := js ''a.txt''\<rparr>\<rparr>))
       = App_init
   \<and> js ''print(1)'' \<noteq> [] \<and> 0x2E \<notin> set (js ''notes'')
   \<and> validationError (editor (handleGenerateFromText
        (page_init\<lparr>editor := EditorView_init\<lparr>pastedCode := js ''print(1)'',
                                               inputFileName := js ''notes''\<rparr>\<rparr>)))
       = Some fileNameMessage
   \<and> app (handleGenerateFromText
        (page_init\<lparr>editor := EditorView_init\<lparr>pastedCode := js ''print(1)'',
                                               inputFileName := js ''notes''\<rparr>\<rparr>))
       = App_init
   \<and> \<not> list_all isWhiteSpace (js ''print(1)'')
   \<and> processedFiles (app (handleGenerateFromText
        (page_init\<lparr>editor := EditorView_init\<lparr>pastedCode := js ''print(1)'',
                                               inputFileName := js ''a.txt''\<rparr>\<rparr>)))
        (js ''a.txt'')
       = Some (Entry \<lparr>name = js ''a.txt'', path = js ''a.txt'',
               sourceFiles = [\<lparr>ProjectFile.name = js ''a.txt'', code = js ''print(1)''\<rparr>],
               generatedHtml = []\<rparr>)"
  using handleGenerateFromText_validation
          [of "page_init\<lparr>editor := EditorView_init\<lparr>pastedCode := [0x20, 0x09, 0x0A],
                                                      inputFileName := js ''a.txt''\<rparr>\<rparr>"]
        handleGenerateFromText_validation
          [of "page_init\<lparr>editor := EditorView_init\<lparr>pastedCode := js ''print(1)'',
                                                      inputFileName := js ''notes''\<rparr>\<rparr>"]
        handleGenerateFromText_validation
          [of "page_init\<lparr>editor := EditorView_init\<lparr>pastedCode := js ''print(1)'',
                                                      inputFileName := js ''a.txt''\<rparr>\<rparr>"]
  by (simp add: page_init_def EditorView_init_def App_init_def js_def isWhiteSpace_def
        handleGenerateFromText_def trim_def includes_str_def setValidationError_def
        sublist_Cons_right)

text \<open>
  C9. When the submission ends with a validation message, the page is the page before
  with only \<open>validationError\<close> changed: the registry with all its entries and their
  output, the active path, the pasted code and the file name are as they were.
\<close>

theorem handleGenerateFromText_failure_frame:
  "validationError (editor (handleGenerateFromText pg)) \<noteq> None \<Longrightarrow>
     app (handleGenerateFromText pg) = app pg
     \<and> pastedCode (editor (handleGenerateFromText pg)) = pastedCode (editor pg)
     \<and> inputFileName (editor (handleGenerateFromText pg)) = inputFileName (editor pg)
     \<and> handleGenerateFromText pg
         = pg\<lparr>editor := (editor pg)\<lparr>validationError :=
                validationError (editor (handleGenerateFromText pg))\<rparr>\<rparr>"
  by (auto simp: handleGenerateFromText_def Let_def setValidationError_def
        processPastedCode_def onGenerationStart_def split: if_splits)

theorem handleGenerateFromText_failure_frame_witness:
  "validationError (editor (handleGenerateFromText
      (onStreamUpdate (js ''x.py'') (js ''<html>'')
        (onGenerationStart (js ''x.py'') (js ''x.py'')
          [\<lparr>ProjectFile.name = js ''x.py'', code = js ''print(1)''\<rparr>]
          (page_init\<lparr>editor := EditorView_init\<lparr>pastedCode := js ''let x'',
                                                 inputFileName := js ''notes''\<rparr>\<rparr>)))))
     = Some fileNameMessage
   \<and> processedFiles (app (handleGenerateFromText
      (onStreamUpdate (js ''x.py'') (js ''<html>'')
        (onGenerationStart (js ''x.py'') (js ''x.py'')
          [\<lparr>ProjectFile.name = js ''x.py'', code = js ''print(1)''\<rparr>]
          (page_init\<lparr>editor := EditorView_init\<lparr>pastedCode := js ''let x'',
                                                 inputFileName := js ''notes''\<rparr>\<rparr>))))) (js ''x.py'')
     = Some (Entry \<lparr>name = js ''x.py'', path = js ''x.py'',
             sourceFiles = [\<lparr>ProjectFile.name = js ''x.py'', code = js ''print(1)''\<rparr>],
             generatedHtml = js ''<html>''\<rparr>)
   \<and> pastedCode (editor (handleGenerateFromText
      (onStreamUpdate (js ''x.py'') (js ''<html>'')
        (onGenerationStart (js ''x.py'') (js ''x.py'')
          [\<lparr>ProjectFile.name = js ''x.py'', code = js ''print(1)''\<rparr>]
          (page_init\<lparr>editor := EditorView_init\<lparr>pastedCode := js ''let x'',
                                                 inputFileName := js ''notes''\<rparr>\<rparr>)))))
     = js ''let x''"
  using handleGenerateFromText_failure_frame
          [of "onStreamUpdate (js ''x.py'') (js ''<html>'')
                 (onGenerationStart (js ''x.py'') (js ''x.py'')
                   [\<lparr>ProjectFile.name = js ''x.py'', code = js ''print(1)''\<rparr>]
                   (page_init\<lparr>editor := EditorView_init\<lparr>pastedCode := js ''let x'',
                                                          inputFileName := js ''notes''\<rparr>\<rparr>))"]
  by (simp add: page_init_def EditorView_init_def App_init_def js_def isWhiteSpace_def
        handleGenerateFromText_def trim_def includes_str_def setValidationError_def
        onStreamUpdate_def onGenerationStart_def handleStreamUpdate_def handleGenerationStart_def
        readKey_def sublist_Cons_right)

end
